theory Spec2Isabelle
  imports Complex_Main "HOL-Library.Sublist" "HOL-Library.AList"
begin

section \<open>Python strings\<close>

text \<open>
  A Python \<open>str\<close> is modelled as a \<open>string\<close> (a list of 8-bit characters). The
  functions below are the string methods the scraper calls. Every literal the scraper
  compares against is ASCII; \<open>str.lower\<close> is modelled on the ASCII letters and leaves
  every other character as it is, and \<open>str.strip\<close> removes the ASCII white space
  characters of \<open>str.isspace\<close>.
\<close>

definition lower_char :: "char \<Rightarrow> char" where
  "lower_char c =
     (case map_of (zip ''ABCDEFGHIJKLMNOPQRSTUVWXYZ'' ''abcdefghijklmnopqrstuvwxyz'') c of
        Some d \<Rightarrow> d
      | None \<Rightarrow> c)"

definition lower :: "string \<Rightarrow> string" where
  "lower s = map lower_char s"

text \<open>\<open>startswith pat s\<close> is \<open>s.startswith(pat)\<close>.\<close>

fun startswith :: "string \<Rightarrow> string \<Rightarrow> bool" where
  "startswith [] s = True"
| "startswith (p # ps) [] = False"
| "startswith (p # ps) (c # cs) = (p = c \<and> startswith ps cs)"

text \<open>\<open>contains pat s\<close> is the substring test \<open>pat in s\<close>.\<close>

fun contains :: "string \<Rightarrow> string \<Rightarrow> bool" where
  "contains pat [] = (pat = [])"
| "contains pat (c # cs) = (startswith pat (c # cs) \<or> contains pat cs)"

definition isspace :: "char \<Rightarrow> bool" where
  "isspace c = (c \<in> set [CHR '' '', CHR 0x09, CHR 0x0A, CHR 0x0B, CHR 0x0C, CHR 0x0D,
                          CHR 0x1C, CHR 0x1D, CHR 0x1E, CHR 0x1F])"

definition strip :: "string \<Rightarrow> string" where
  "strip s = rev (dropWhile isspace (rev (dropWhile isspace s)))"

section \<open>Text classifiers\<close>

text \<open>
  \<^verbatim>\<open>
  def is_recent_job(self, posted_date_text):
      text = posted_date_text.lower()
      if 'hours ago' in text or 'hour ago' in text:
          return True
      elif 'day ago' in text or '1 day ago' in text:
          return True
      elif '2 days ago' in text:
          return True
      elif '3 days ago' in text:
          return True
      return False
  \<close>
\<close>

definition is_recent_job :: "string \<Rightarrow> bool" where
  "is_recent_job posted_date_text =
     (let text = lower posted_date_text in
      if contains ''hours ago'' text \<or> contains ''hour ago'' text then True
      else if contains ''day ago'' text \<or> contains ''1 day ago'' text then True
      else if contains ''2 days ago'' text then True
      else if contains ''3 days ago'' text then True
      else False)"

datatype experience_level = Senior_Level | Entry_Level | Mid_Level

text \<open>
  \<^verbatim>\<open>
  def determine_experience_level(self, job_description):
      text = job_description.lower()
      if any(word in text for word in ['senior', 'lead', 'principal', 'manager', 'head of']):
          return 'Senior Level'
      elif any(word in text for word in ['junior', 'entry', 'graduate', 'trainee']):
          return 'Entry Level'
      else:
          return 'Mid Level'
  \<close>
\<close>

definition determine_experience_level :: "string \<Rightarrow> experience_level" where
  "determine_experience_level job_description =
     (let text = lower job_description in
      if list_ex (\<lambda>word. contains word text)
           [''senior'', ''lead'', ''principal'', ''manager'', ''head of'']
      then Senior_Level
      else if list_ex (\<lambda>word. contains word text)
           [''junior'', ''entry'', ''graduate'', ''trainee'']
      then Entry_Level
      else Mid_Level)"

datatype work_type = Remote | Hybrid | On_site

text \<open>
  \<^verbatim>\<open>
  def is_remote(self, job_description):
      text = job_description.lower()
      if any(word in text for word in ['remote', 'work from home', 'wfh', 'hybrid']):
          if 'hybrid' in text:
              return 'Hybrid'
          return 'Remote'
      return 'On-site'
  \<close>
\<close>

definition is_remote :: "string \<Rightarrow> work_type" where
  "is_remote job_description =
     (let text = lower job_description in
      if list_ex (\<lambda>word. contains word text)
           [''remote'', ''work from home'', ''wfh'', ''hybrid'']
      then (if contains ''hybrid'' text then Hybrid else Remote)
      else On_site)"

text \<open>
  The regular expressions of \<open>clean_location\<close> are a literal followed by \<open>$\<close>, and one
  bare literal. \<open>re.sub\<close> scans the string from the left, replaces the leftmost match and
  goes on after it. \<open>$\<close> matches at the end of the string and just before a newline that
  is the last character of the string.
\<close>

definition at_end :: "string \<Rightarrow> bool" where
  "at_end r = (r = [] \<or> r = [CHR 0x0A])"

text \<open>\<open>re_sub_end pat s\<close> is \<open>re.sub(pat + '$', '', s)\<close> for a literal \<open>pat\<close>.\<close>

fun re_sub_end :: "string \<Rightarrow> string \<Rightarrow> string" where
  "re_sub_end pat [] = []"
| "re_sub_end pat (c # cs) =
     (if startswith pat (c # cs) \<and> at_end (drop (length pat) (c # cs))
      then drop (length pat) (c # cs)
      else c # re_sub_end pat cs)"

text \<open>\<open>re_sub_all pat s\<close> is \<open>re.sub(pat, '', s)\<close> for a literal \<open>pat\<close>.\<close>

function re_sub_all :: "string \<Rightarrow> string \<Rightarrow> string" where
  "re_sub_all [] s = s"
| "re_sub_all (p # ps) [] = []"
| "re_sub_all (p # ps) (c # cs) =
     (if startswith (p # ps) (c # cs)
      then re_sub_all (p # ps) (drop (length ps) cs)
      else c # re_sub_all (p # ps) cs)"
  by pat_completeness auto
termination
  by (relation "measure (\<lambda>(pat, s). length s)") auto

text \<open>
  \<^verbatim>\<open>
  def clean_location(self, location):
      location = re.sub(r', England, United Kingdom$', '', location)
      location = re.sub(r', United Kingdom$', '', location)
      location = re.sub(r', UK$', '', location)
      location = re.sub(r' Area, United Kingdom$', '', location)
      location = re.sub(r' Area$', '', location)
      location = re.sub(r'Greater ', '', location)
      if ',' in location:
          location = location.split(',')[0].strip()
      return location
  \<close>
\<close>

definition clean_location :: "string \<Rightarrow> string" where
  "clean_location location =
     (let location = re_sub_end '', England, United Kingdom'' location;
          location = re_sub_end '', United Kingdom'' location;
          location = re_sub_end '', UK'' location;
          location = re_sub_end '' Area, United Kingdom'' location;
          location = re_sub_end '' Area'' location;
          location = re_sub_all ''Greater '' location
      in if CHR '','' \<in> set location
         then strip (takeWhile (\<lambda>c. c \<noteq> CHR '','') location)
         else location)"

section \<open>Exceptions\<close>

text \<open>
  An exception is a value. \<open>KeyError k\<close> is the error of a missing dictionary key or
  environment variable; \<open>Error m\<close> is any other exception, with its message. \<open>str_exn\<close> is
  \<open>str(e)\<close>.
\<close>

datatype exn = KeyError string | Error string

fun str_exn :: "exn \<Rightarrow> string" where
  "str_exn (KeyError k) = [CHR 0x27] @ k @ [CHR 0x27]"
| "str_exn (Error m) = m"

section \<open>Geocoding resolver\<close>

text \<open>
  The pair \<open>(lat, lon)\<close> that \<open>get_coordinates\<close> returns is \<open>(None, None)\<close> or two floats.
  No function of the scraper computes with the floats, so a real number stands for each.

  What Nominatim answers is the environment's choice. \<open>JsonValue rs\<close> is the value of
  \<open>response.json()\<close>: a falsy value is \<open>JsonValue []\<close>, and each entry is the outcome of
  \<open>float(r['lat']), float(r['lon'])\<close> on it, an exception or the two floats.
\<close>

type_synonym coords = "real option \<times> real option"

datatype geo_json = JsonRaises exn | JsonValue "(exn + real \<times> real) list"

datatype geo_response = GetRaises exn | Response nat geo_json

text \<open>
  \<open>geocoding_cache\<close> is the dictionary of the scraper object; \<open>geo_requests\<close> records the
  \<open>q\<close> parameter of every request sent to Nominatim, in order. The environment answers
  the \<open>n\<close>-th request for \<open>q\<close> with \<open>net n q\<close>.
\<close>

record geo_state =
  geocoding_cache :: "string \<rightharpoonup> coords"
  geo_requests :: "string list"

type_synonym nominatim = "nat \<Rightarrow> string \<Rightarrow> geo_response"

text \<open>
  The body of the \<open>try\<close> block of \<open>get_coordinates\<close> (lines 100 to 130): \<open>Inl e\<close> when it
  raises \<open>e\<close>.
\<close>

definition geocode_try :: "nominatim \<Rightarrow> string \<Rightarrow> geo_state \<Rightarrow> (exn + coords) \<times> geo_state" where
  "geocode_try net location st =
     (let search_location = location @ '', United Kingdom'';
          st1 = st\<lparr>geo_requests := geo_requests st @ [search_location]\<rparr>;
          negative = (Inr (None, None),
                      st1\<lparr>geocoding_cache := (geocoding_cache st1)(location \<mapsto> (None, None))\<rparr>)
      in case net (length (geo_requests st)) search_location of
           GetRaises e \<Rightarrow> (Inl e, st1)
         | Response status_code json \<Rightarrow>
             if status_code = 200 then
               (case json of
                  JsonRaises e \<Rightarrow> (Inl e, st1)
                | JsonValue results \<Rightarrow>
                    (case results of
                       [] \<Rightarrow> negative
                     | r # _ \<Rightarrow>
                         (case r of
                            Inl e \<Rightarrow> (Inl e, st1)
                          | Inr (lat, lon) \<Rightarrow>
                              (Inr (Some lat, Some lon),
                               st1\<lparr>geocoding_cache :=
                                     (geocoding_cache st1)(location \<mapsto> (Some lat, Some lon))\<rparr>))))
             else negative)"

text \<open>
  \<^verbatim>\<open>
  def get_coordinates(self, location):
      if not location:
          return None, None
      if location in self.geocoding_cache:
          return self.geocoding_cache[location]
      try:
          ...
      except Exception as e:
          print(f"Error geocoding location '{location}': {str(e)}")
          return None, None
  \<close>
\<close>

definition get_coordinates :: "nominatim \<Rightarrow> string \<Rightarrow> geo_state \<Rightarrow> coords \<times> geo_state" where
  "get_coordinates net location st =
     (if location = [] then ((None, None), st)
      else case geocoding_cache st location of
             Some v \<Rightarrow> (v, st)
           | None \<Rightarrow>
               (case geocode_try net location st of
                  (Inr v, st') \<Rightarrow> (v, st')
                | (Inl e, st') \<Rightarrow> ((None, None), st')))"

section \<open>Listing extractor\<close>

record job =
  Job_Title :: string
  Company :: string
  Location :: string
  Experience_Level :: experience_level
  Work_Type :: work_type
  Category :: string
  Posted_Date :: string
  Job_URL :: string
  Date_Scraped :: string

text \<open>
  A listing card (a \<open>div\<close> of class \<open>base-card\<close>) is what the scraper reads from it: the
  text of each element it looks for (\<open>None\<close> when \<open>find\<close> returns \<open>None\<close>), the \<open>href\<close> of
  its link (\<open>None\<close> when the link or the attribute is missing), what fetching the detail
  page gives (an exception, or the text of the description block if there is one), and
  the formatted time of \<open>datetime.now()\<close> when the card is read.
\<close>

datatype detail_response = DetailRaises exn | DetailPage "string option"

record card =
  listdate :: "string option"
  card_title :: "string option"
  card_subtitle :: "string option"
  card_location :: "string option"
  full_link :: "string option"
  detail :: detail_response
  clock :: string

definition no_text :: exn where
  "no_text = Error ''NoneType object has no attribute text''"

definition no_href :: exn where
  "no_href = Error ''NoneType object is not subscriptable''"

text \<open>
  Lines 176 to 199, the rest of the inner \<open>try\<close> block once the card has passed the
  recency check: \<open>Inl e\<close> when it raises \<open>e\<close>, else the record appended to \<open>all_jobs\<close>.
\<close>

definition parse_card :: "string \<Rightarrow> card \<Rightarrow> exn + job" where
  "parse_card job_title c =
     (case card_title c of None \<Rightarrow> Inl no_text | Some title \<Rightarrow>
      case card_subtitle c of None \<Rightarrow> Inl no_text | Some company \<Rightarrow>
      case card_location c of None \<Rightarrow> Inl no_text | Some raw_location \<Rightarrow>
      case full_link c of None \<Rightarrow> Inl no_href | Some job_url \<Rightarrow>
      case detail c of DetailRaises e \<Rightarrow> Inl e | DetailPage markup \<Rightarrow>
        (let job_description = (case markup of Some m \<Rightarrow> strip m | None \<Rightarrow> [])
         in Inr \<lparr>Job_Title = strip title,
                 Company = strip company,
                 Location = clean_location (strip raw_location),
                 Experience_Level = determine_experience_level job_description,
                 Work_Type = is_remote job_description,
                 Category = job_title,
                 Posted_Date = (case listdate c of Some d \<Rightarrow> strip d | None \<Rightarrow> ''Recently''),
                 Job_URL = job_url,
                 Date_Scraped = clock c\<rparr>))"

text \<open>
  One turn of the loop over the cards of a page (lines 166 to 203), on the pair
  \<open>(recent_jobs_found, all_jobs)\<close>:
  \<^verbatim>\<open>
  posted_date = job.find('time', class_='job-search-card__listdate')
  if posted_date:
      posted_date_text = posted_date.text.strip()
      if not self.is_recent_job(posted_date_text):
          continue
  recent_jobs_found = True
  ...
  all_jobs.append({...})
  \<close>
  An exception of the block is caught, printed, and the loop goes on.
\<close>

definition card_step :: "string \<Rightarrow> card \<Rightarrow> bool \<times> job list \<Rightarrow> bool \<times> job list" where
  "card_step job_title c acc =
     (case acc of (recent_jobs_found, all_jobs) \<Rightarrow>
        (case listdate c of
           Some d \<Rightarrow>
             if \<not> is_recent_job (strip d) then (recent_jobs_found, all_jobs)
             else (case parse_card job_title c of
                     Inl e \<Rightarrow> (True, all_jobs)
                   | Inr j \<Rightarrow> (True, all_jobs @ [j]))
         | None \<Rightarrow>
             (case parse_card job_title c of
                Inl e \<Rightarrow> (True, all_jobs)
              | Inr j \<Rightarrow> (True, all_jobs @ [j]))))"

definition scan_cards :: "string \<Rightarrow> card list \<Rightarrow> bool \<times> job list \<Rightarrow> bool \<times> job list" where
  "scan_cards job_title job_cards acc = fold (card_step job_title) job_cards acc"

section \<open>Pagination controller\<close>

text \<open>
  A search request either raises or gives a status code and the listing cards of the
  page. \<open>page_requests\<close> records the search term and the page index of every search
  request, in order.
\<close>

datatype page_response = PageRaises exn | Page nat "card list"

type_synonym search = "string \<Rightarrow> nat \<Rightarrow> page_response"

record scrape_state =
  all_jobs :: "job list"
  page_requests :: "(string \<times> nat) list"

datatype control = Break scrape_state | Continue nat scrape_state

text \<open>
  The body of the \<open>while\<close> loop (lines 147 to 217). \<open>Break\<close> is every \<open>break\<close> of the body,
  the one of the \<open>except\<close> clause too; \<open>Continue n\<close> reaches \<open>page += 1\<close> with
  \<open>consecutive_old_jobs = n\<close>.
\<close>

definition page_body :: "search \<Rightarrow> string \<Rightarrow> nat \<Rightarrow> nat \<Rightarrow> scrape_state \<Rightarrow> control" where
  "page_body fetch job_title page consecutive_old_jobs st =
     (let st1 = st\<lparr>page_requests := page_requests st @ [(job_title, page)]\<rparr>
      in case fetch job_title page of
           PageRaises e \<Rightarrow> Break st1
         | Page status_code job_cards \<Rightarrow>
             if status_code \<noteq> 200 then Break st1
             else if job_cards = [] then Break st1
             else
               (case scan_cards job_title job_cards (False, all_jobs st1) of
                  (recent_jobs_found, jobs) \<Rightarrow>
                    if \<not> recent_jobs_found then
                      (if consecutive_old_jobs + 1 \<ge> 2 then Break (st1\<lparr>all_jobs := jobs\<rparr>)
                       else Continue (consecutive_old_jobs + 1) (st1\<lparr>all_jobs := jobs\<rparr>))
                    else Continue 0 (st1\<lparr>all_jobs := jobs\<rparr>)))"

function pages_loop :: "search \<Rightarrow> string \<Rightarrow> nat \<Rightarrow> nat \<Rightarrow> nat \<Rightarrow> scrape_state \<Rightarrow> scrape_state" where
  "pages_loop fetch job_title max_pages page consecutive_old_jobs st =
     (if page < max_pages then
        (case page_body fetch job_title page consecutive_old_jobs st of
           Break st' \<Rightarrow> st'
         | Continue n st' \<Rightarrow> pages_loop fetch job_title max_pages (page + 1) n st')
      else st)"
  by pat_completeness auto
termination
  by (relation "measure (\<lambda>(fetch, job_title, max_pages, page, n, st). max_pages - page)") auto

definition it_jobs :: "string list" where
  "it_jobs = [''Backend Developer'', ''Frontend Developer'', ''Machine Learning Engineer'']"

definition max_pages_per_category :: nat where
  "max_pages_per_category = 1"

text \<open>
  \<open>scrape_run\<close> is \<open>scrape_linkedin_jobs\<close> with the record of its search requests;
  \<open>scrape_linkedin_jobs\<close> is what the method returns.
\<close>

definition scrape_run :: "search \<Rightarrow> scrape_state" where
  "scrape_run fetch =
     fold (\<lambda>job_title st. pages_loop fetch job_title max_pages_per_category 0 0 st)
       it_jobs \<lparr>all_jobs = [], page_requests = []\<rparr>"

definition scrape_linkedin_jobs :: "search \<Rightarrow> job list" where
  "scrape_linkedin_jobs fetch = all_jobs (scrape_run fetch)"

section \<open>Sink writers\<close>

text \<open>
  The environment of a run: the environment variables, the search source, the geocoding
  service, whether the upload to the blob store raises, what each step of the database
  session raises (\<open>None\<close> when it succeeds), and the clock readings.
\<close>

type_synonym row = "job \<times> real option \<times> real option"

record env =
  environ :: "string \<rightharpoonup> string"
  search_source :: search
  geocoder :: nominatim
  put_object :: "string \<Rightarrow> string \<Rightarrow> row list \<Rightarrow> exn option"
  s3_clock :: string
  connect_raises :: "exn option"
  cursor_raises :: "exn option"
  schema_raises :: "exn option"
  execute_batch_raises :: "row list \<Rightarrow> exn option"
  rollback_raises :: "exn option"
  cur_close_raises :: "exn option"
  conn_close_raises :: "exn option"
  summary_clock :: string

text \<open>
  The enrichment loop of \<open>save_to_s3\<close> (lines 234 to 242):
  \<^verbatim>\<open>
  for job in jobs:
      job_copy = job.copy()
      lat, lng = self.get_coordinates(job['Location'])
      job_copy['Latitude'] = lat
      job_copy['Longitude'] = lng
      jobs_with_coordinates.append(job_copy)
  \<close>
\<close>

fun s3_enrich :: "nominatim \<Rightarrow> job list \<Rightarrow> geo_state \<Rightarrow> row list \<times> geo_state" where
  "s3_enrich net [] st = ([], st)"
| "s3_enrich net (job # jobs) st =
     (case get_coordinates net (Location job) st of
        ((lat, lng), st1) \<Rightarrow>
          (case s3_enrich net jobs st1 of
             (rows, st2) \<Rightarrow> ((job, lat, lng) # rows, st2)))"

text \<open>
  \<open>save_to_s3\<close> returns the path of the object, or \<open>None\<close> when there is no job and when
  the \<open>try\<close> block raises (a missing \<open>S3_BUCKET_NAME\<close>, a failed upload).
\<close>

definition save_to_s3 :: "env \<Rightarrow> job list \<Rightarrow> geo_state \<Rightarrow> string option \<times> geo_state" where
  "save_to_s3 e jobs st =
     (if jobs = [] then (None, st)
      else case s3_enrich (geocoder e) jobs st of
        (jobs_with_coordinates, st1) \<Rightarrow>
          (case environ e ''S3_BUCKET_NAME'' of
             None \<Rightarrow> (None, st1)
           | Some bucket_name \<Rightarrow>
               (let file_name = ''linkedin_recent_it_jobs_'' @ s3_clock e @ ''.csv''
                in case put_object e bucket_name file_name jobs_with_coordinates of
                     Some ex \<Rightarrow> (None, st1)
                   | None \<Rightarrow> (Some (''s3://'' @ bucket_name @ ''/'' @ file_name), st1))))"

text \<open>
  The enrichment loop of \<open>save_to_postgres\<close> (lines 320 to 338):
  \<^verbatim>\<open>
  for job in jobs:
      lat, lng = self.get_coordinates(job['Location'])
      job_data.append((job['Job Title'], job['Company'], job['Location'], lat, lng, ...))
  \<close>
\<close>

fun pg_enrich :: "nominatim \<Rightarrow> job list \<Rightarrow> geo_state \<Rightarrow> row list \<times> geo_state" where
  "pg_enrich net [] st = ([], st)"
| "pg_enrich net (job # jobs) st =
     (case get_coordinates net (Location job) st of
        ((lat, lng), st1) \<Rightarrow>
          (case pg_enrich net jobs st1 of
             (job_data, st2) \<Rightarrow> ((job, lat, lng) # job_data, st2)))"

text \<open>
  The \<open>finally\<close> clause of \<open>save_to_postgres\<close>, with a connection open: it closes the
  cursor if there is one, then the connection; an exception of either leaves the method,
  and otherwise the pending exception (of the \<open>except\<close> clause) does.
\<close>

definition pg_finally :: "env \<Rightarrow> bool \<Rightarrow> exn option \<Rightarrow> exn + unit" where
  "pg_finally e cur pending =
     (case (if cur then cur_close_raises e else None) of
        Some ex \<Rightarrow> Inl ex
      | None \<Rightarrow>
          (case conn_close_raises e of
             Some ex \<Rightarrow> Inl ex
           | None \<Rightarrow> (case pending of Some ex \<Rightarrow> Inl ex | None \<Rightarrow> Inr ())))"

text \<open>
  \<open>save_to_postgres\<close>: \<open>Inl ex\<close> when \<open>ex\<close> leaves the method. The \<open>except\<close> clause prints
  the error and rolls back when there is a connection.
\<close>

definition save_to_postgres :: "env \<Rightarrow> job list \<Rightarrow> geo_state \<Rightarrow> (exn + unit) \<times> geo_state" where
  "save_to_postgres e jobs st =
     (if jobs = [] then (Inr (), st)
      else case connect_raises e of
        Some ex \<Rightarrow> (Inr (), st)
      | None \<Rightarrow>
          (case cursor_raises e of
             Some ex \<Rightarrow> (pg_finally e False (rollback_raises e), st)
           | None \<Rightarrow>
               (case schema_raises e of
                  Some ex \<Rightarrow> (pg_finally e True (rollback_raises e), st)
                | None \<Rightarrow>
                    (case pg_enrich (geocoder e) jobs st of
                       (job_data, st1) \<Rightarrow>
                         (case execute_batch_raises e job_data of
                            Some ex \<Rightarrow> (pg_finally e True (rollback_raises e), st1)
                          | None \<Rightarrow> (pg_finally e True None, st1))))))"

section \<open>Run orchestrator\<close>

text \<open>
  The constructor reads the five database settings from the environment, in this order;
  a missing one raises \<open>KeyError\<close>.
\<close>

fun require :: "(string \<rightharpoonup> string) \<Rightarrow> string list \<Rightarrow> exn + unit" where
  "require vars [] = Inr ()"
| "require vars (k # ks) = (case vars k of None \<Rightarrow> Inl (KeyError k) | Some v \<Rightarrow> require vars ks)"

definition init_scraper :: "env \<Rightarrow> exn + unit" where
  "init_scraper e =
     require (environ e) [''DB_NAME'', ''DB_USER'', ''DB_PASSWORD'', ''DB_HOST'', ''DB_PORT'']"

text \<open>
  \<^verbatim>\<open>
  categories = {}
  for job in jobs:
      category = job['Category']
      if category not in categories:
          categories[category] = 0
      categories[category] += 1
  \<close>
  The dictionary is an association list in insertion order.
\<close>

definition count_category :: "job \<Rightarrow> (string \<times> nat) list \<Rightarrow> (string \<times> nat) list" where
  "count_category job categories =
     (let category = Category job;
          categories1 = (if map_of categories category = None
                         then AList.update category 0 categories else categories)
      in case map_of categories1 category of
           None \<Rightarrow> categories1
         | Some n \<Rightarrow> AList.update category (n + 1) categories1)"

record summary =
  total_jobs :: nat
  jobs_by_category :: "(string \<times> nat) list"
  output_file :: "string option"
  timestamp :: string

datatype body = Summary summary | ErrorBody string

record response =
  statusCode :: nat
  body :: body

text \<open>The \<open>try\<close> block of \<open>lambda_handler\<close>: \<open>Inl ex\<close> when \<open>ex\<close> reaches its \<open>except\<close> clause.\<close>

definition handler_try :: "env \<Rightarrow> exn + summary" where
  "handler_try e =
     (case init_scraper e of
        Inl ex \<Rightarrow> Inl ex
      | Inr u \<Rightarrow>
          (let jobs = scrape_linkedin_jobs (search_source e)
           in case save_to_s3 e jobs \<lparr>geocoding_cache = Map.empty, geo_requests = []\<rparr> of
                (s3_path, st1) \<Rightarrow>
                  (case save_to_postgres e jobs st1 of
                     (Inl ex, st2) \<Rightarrow> Inl ex
                   | (Inr u, st2) \<Rightarrow>
                       Inr \<lparr>total_jobs = length jobs,
                            jobs_by_category = fold count_category jobs [],
                            output_file = s3_path,
                            timestamp = summary_clock e\<rparr>)))"

definition lambda_handler :: "env \<Rightarrow> response" where
  "lambda_handler e =
     (case handler_try e of
        Inr s \<Rightarrow> \<lparr>statusCode = 200, body = Summary s\<rparr>
      | Inl ex \<Rightarrow> \<lparr>statusCode = 500, body = ErrorBody (str_exn ex)\<rparr>)"

section \<open>The cleaner as the specification words it\<close>

text \<open>
  The location cleaner read literally: each suffix is removed when the string ends with
  it, a leading \<open>Greater \<close> is removed, and what is before the first comma is kept,
  trimmed.
\<close>

definition strip_suffix :: "string \<Rightarrow> string \<Rightarrow> string" where
  "strip_suffix suf s = (if suffix suf s then take (length s - length suf) s else s)"

definition strip_leading :: "string \<Rightarrow> string \<Rightarrow> string" where
  "strip_leading pre s = (if prefix pre s then drop (length pre) s else s)"

definition clean_location_spec :: "string \<Rightarrow> string" where
  "clean_location_spec location =
     (let location = strip_suffix '', England, United Kingdom'' location;
          location = strip_suffix '', United Kingdom'' location;
          location = strip_suffix '', UK'' location;
          location = strip_suffix '' Area, United Kingdom'' location;
          location = strip_suffix '' Area'' location;
          location = strip_leading ''Greater '' location
      in if CHR '','' \<in> set location
         then strip (takeWhile (\<lambda>c. c \<noteq> CHR '','') location)
         else location)"

text \<open>
  What \<open>$\<close> does: the suffix is removed when the string ends with it, and also when only
  a final newline follows it (the newline stays).
\<close>

definition strip_end :: "string \<Rightarrow> string \<Rightarrow> string" where
  "strip_end suf s =
     (if suffix suf s then take (length s - length suf) s
      else if suffix (suf @ [CHR 0x0A]) s then take (length s - length suf - 1) s @ [CHR 0x0A]
      else s)"

definition ends_with_area :: "string \<Rightarrow> bool" where
  "ends_with_area s = (suffix '' Area'' s \<or> suffix '' Area\<newline>'' s)"

section \<open>The substring test\<close>

lemma startswith_prefix: "startswith pat s \<longleftrightarrow> prefix pat s"
  by (induction pat s rule: startswith.induct) auto

lemma contains_sublist: "contains pat s \<longleftrightarrow> sublist pat s"
  by (induction s) (auto simp: startswith_prefix sublist_Cons_right)

section \<open>The recency predicate\<close>

text \<open>
  The predicate is a substring test: it accepts a text exactly when its lower-cased form
  has one of the six phrases somewhere inside it.
\<close>

lemma is_recent_job_iff:
  "is_recent_job t \<longleftrightarrow>
     (\<exists>p \<in> {''hours ago'', ''hour ago'', ''day ago'', ''1 day ago'', ''2 days ago'', ''3 days ago''}.
        sublist p (lower t))"
  by (simp add: is_recent_job_def contains_sublist Let_def)

text \<open>
  C1. The recency predicate is to accept the six phrases and to reject everything older
  (the method's docstring: posted within the last 3 days). It accepts \<open>2 days ago\<close> and
  rejects \<open>4 days ago\<close> and the empty text, but it also accepts \<open>13 days ago\<close>, which
  has \<open>3 days ago\<close> inside it.
\<close>

theorem is_recent_job_13_days_ago:
  "is_recent_job ''13 days ago'' \<and> is_recent_job ''2 days ago''
   \<and> \<not> is_recent_job ''4 days ago'' \<and> \<not> is_recent_job []"
  by (simp add: is_recent_job_def lower_def lower_char_def)

section \<open>The experience classifier\<close>

text \<open>
  C7. The experience level is Senior when the lower-cased description contains one of
  senior, lead, principal, manager, head of; otherwise Entry when it contains one of
  junior, entry, graduate, trainee; otherwise Mid. So a description with both senior and
  graduate is Senior, and one with no keyword of either tier is Mid.
\<close>

theorem determine_experience_level_tiers:
  "determine_experience_level d =
     (if \<exists>w \<in> {''senior'', ''lead'', ''principal'', ''manager'', ''head of''}. sublist w (lower d)
      then Senior_Level
      else if \<exists>w \<in> {''junior'', ''entry'', ''graduate'', ''trainee''}. sublist w (lower d)
      then Entry_Level
      else Mid_Level)
   \<and> (sublist ''senior'' (lower d) \<and> sublist ''graduate'' (lower d)
        \<longrightarrow> determine_experience_level d = Senior_Level)"
  by (simp add: determine_experience_level_def contains_sublist Let_def)

theorem determine_experience_level_tiers_witness:
  "sublist ''senior'' (lower ''Senior engineer, open to a Graduate'')
   \<and> sublist ''graduate'' (lower ''Senior engineer, open to a Graduate'')
   \<and> determine_experience_level ''Senior engineer, open to a Graduate'' = Senior_Level
   \<and> determine_experience_level ''Graduate scheme'' = Entry_Level
   \<and> determine_experience_level ''Python developer'' = Mid_Level"
  using determine_experience_level_tiers [of "''Senior engineer, open to a Graduate''"]
        determine_experience_level_tiers [of "''Graduate scheme''"]
        determine_experience_level_tiers [of "''Python developer''"]
  by (simp add: contains_sublist [symmetric] lower_def lower_char_def)

end
